theory Spec2Isabelle
  imports Main
begin

section \<open>Data model (src/src/models/Ticket.ts)\<close>

text \<open>
  The enumerated string fields of the ticket schema are datatypes; \<open>level_str\<close> and its
  siblings give the string the JavaScript code compares and interpolates. The role of an
  actor stays a plain string, as in the \<open>AuthRequest\<close> interface of the controllers.
  Object ids are strings and dates are natural numbers (a clock reading \<open>now\<close> is passed
  to every operation in place of \<open>new Date()\<close>).
\<close>

datatype level = L1 | L2 | L3

datatype crit = C1 | C2 | C3

datatype status = New | Attending | Completed | Escalated | Resolved

datatype priority = Low | Medium | High

fun level_str :: "level \<Rightarrow> string" where
  "level_str L1 = ''L1''"
| "level_str L2 = ''L2''"
| "level_str L3 = ''L3''"

fun crit_str :: "crit \<Rightarrow> string" where
  "crit_str C1 = ''C1''"
| "crit_str C2 = ''C2''"
| "crit_str C3 = ''C3''"

fun status_str :: "status \<Rightarrow> string" where
  "status_str New = ''New''"
| "status_str Attending = ''Attending''"
| "status_str Completed = ''Completed''"
| "status_str Escalated = ''Escalated''"
| "status_str Resolved = ''Resolved''"

fun priority_str :: "priority \<Rightarrow> string" where
  "priority_str Low = ''Low''"
| "priority_str Medium = ''Medium''"
| "priority_str High = ''High''"

record escalation =
  fromLevel :: level
  toLevel :: level
  reason :: string
  escalatedBy :: string
  escalatedAt :: nat
  escalation_notes :: "string option"

record actionLog =
  action :: string
  performedBy :: string
  performedAt :: nat
  details :: "string option"
  previousStatus :: "status option"
  newStatus :: "status option"

record ticket =
  ticket_id :: string
  title :: string
  description :: string
  category :: string
  priority :: priority
  status :: status
  criticalValue :: "crit option"
  expectedCompletionDate :: nat
  createdBy :: string
  assignedTo :: "string option"
  currentLevel :: level
  escalationHistory :: "escalation list"
  actionLogs :: "actionLog list"
  createdAt :: nat
  updatedAt :: nat

text \<open>The authenticated actor \<open>req.user\<close>; \<open>None\<close> is a request without one.\<close>

record user =
  user_id :: string
  role :: string
  username :: string

text \<open>
  The \<open>ApiResponse\<close> sent with \<open>res.status(code).json(...)\<close>: a failure carries the
  HTTP code, the message and the error strings, a success the code, the message and
  the data.
\<close>

datatype 'a response =
  Failure nat string "string list"
| Success nat string 'a

fun status_code :: "'a response \<Rightarrow> nat" where
  "status_code (Failure c m es) = c"
| "status_code (Success c m d) = c"

fun message :: "'a response \<Rightarrow> string" where
  "message (Failure c m es) = m"
| "message (Success c m d) = m"

fun is_success :: "'a response \<Rightarrow> bool" where
  "is_success (Failure c m es) = False"
| "is_success (Success c m d) = True"

section \<open>The document store\<close>

text \<open>
  The collection of tickets, in insertion order. \<open>findById\<close> is \<open>Ticket.findById\<close>;
  the ids of the paths and of the actors are taken to be well-formed object ids (on a
  malformed one the query throws before anything is read or written).

  \<open>save\<close> is \<open>ticket.save()\<close>. Mongoose first validates the document against the
  schema, a loaded document as well as a new one. The validator function that
  Ticket.ts gives to \<open>expectedCompletionDate\<close> (\<open>value > new Date()\<close>) is \<open>validate\<close>
  below: it refuses a document whose expected completion date is not after the clock.
  The built-in validators of the library (required, enum, maxlength) are an input of
  the model: \<open>verr\<close> is the list of their messages for the document being saved,
  empty when they pass. Then the \<open>pre('save')\<close> hook of Ticket.ts runs, which refuses
  a ticket at L3 with critical value C3. Only then is the document written: a new one
  is inserted (\<open>createdAt\<close> and \<open>updatedAt\<close> stamped, a duplicate id refused), a
  loaded one replaces the stored document with its id (\<open>updatedAt\<close> stamped). Every
  controller catches the exception of a failed save and answers without having
  written anything.
\<close>

type_synonym store = "ticket list"

datatype save_error = ValidationError "string list" | HookError string | DuplicateKey

definition findById :: "string \<Rightarrow> store \<Rightarrow> ticket option" where
  "findById i s = find (\<lambda>t. ticket_id t = i) s"

definition pre_save :: "ticket \<Rightarrow> string option" where
  "pre_save t =
     (if currentLevel t = L3 \<and> criticalValue t = Some C3
      then Some ''C3 tickets cannot be escalated to L3. Only C1 and C2 tickets can reach L3.''
      else None)"

definition validate :: "string list \<Rightarrow> nat \<Rightarrow> ticket \<Rightarrow> string list" where
  "validate verr now t =
     verr @ (if expectedCompletionDate t > now then []
             else [''Expected completion date must be in the future''])"

definition save ::
  "string list \<Rightarrow> bool \<Rightarrow> nat \<Rightarrow> ticket \<Rightarrow> store \<Rightarrow> save_error + (ticket \<times> store)" where
  "save verr isNew now t s =
     (if validate verr now t \<noteq> [] then Inl (ValidationError (validate verr now t))
      else case pre_save t of
        Some e \<Rightarrow> Inl (HookError e)
      | None \<Rightarrow>
          if isNew then
            (if findById (ticket_id t) s \<noteq> None then Inl DuplicateKey
             else (let t' = t\<lparr>createdAt := now, updatedAt := now\<rparr> in Inr (t', s @ [t'])))
          else
            (let t' = t\<lparr>updatedAt := now\<rparr>
             in Inr (t', map (\<lambda>d. if ticket_id d = ticket_id t then t' else d) s)))"

text \<open>Template-literal interpolation of a value that may be \<open>undefined\<close>.\<close>

fun js_str :: "string option \<Rightarrow> string" where
  "js_str None = ''undefined''"
| "js_str (Some x) = x"

text \<open>Truthiness of an optional string: \<open>undefined\<close> and the empty string are falsy.\<close>

fun truthy :: "string option \<Rightarrow> bool" where
  "truthy None = False"
| "truthy (Some x) = (x \<noteq> [])"

text \<open>
  \<open>String.prototype.trim\<close> on strings of one-byte characters: tab, line feed,
  vertical tab, form feed, carriage return, space and no-break space are removed at
  both ends.
\<close>

definition is_space :: "char \<Rightarrow> bool" where
  "is_space c =
     (c \<in> set [CHR 0x09, CHR 0x0A, CHR 0x0B, CHR 0x0C, CHR 0x0D, CHR '' '', CHR 0xA0])"

definition trim :: "string \<Rightarrow> string" where
  "trim x = rev (dropWhile is_space (rev (dropWhile is_space x)))"

text \<open>
  The schema declares \<open>trim: true\<close> for the action and the details of an action log
  entry, for the reason and the notes of an escalation and for the title, the
  description and the category of a ticket: Mongoose trims these strings when it casts
  the object pushed to the array, or given to \<open>new Ticket\<close>, to a document.
\<close>

definition cast_actionLog :: "actionLog \<Rightarrow> actionLog" where
  "cast_actionLog e = e\<lparr>action := trim (action e), details := map_option trim (details e)\<rparr>"

definition cast_escalation :: "escalation \<Rightarrow> escalation" where
  "cast_escalation r =
     r\<lparr>reason := trim (reason r), escalation_notes := map_option trim (escalation_notes r)\<rparr>"

definition cast_ticket :: "ticket \<Rightarrow> ticket" where
  "cast_ticket t =
     t\<lparr>title := trim (title t), description := trim (description t),
       category := trim (category t), actionLogs := map cast_actionLog (actionLogs t)\<rparr>"

section \<open>src/src/controllers/escalationController.ts\<close>

text \<open>
  Every controller takes the verdict \<open>verr\<close> of the built-in validators, the actor
  \<open>req.user\<close>, the ticket id of the path, its validated payload, the clock and the
  store, and returns the response with the store it leaves (the \<open>populate\<close> calls
  after a save only replace user ids by user documents in the answer). The payload of
  \<open>escalateTicket\<close> has passed \<open>validateTicketEscalation\<close>: \<open>toLevel\<close> is one of the
  three levels.
\<close>

definition escalateTicket ::
  "string list \<Rightarrow> user option \<Rightarrow> string \<Rightarrow> level \<Rightarrow> string \<Rightarrow> string option \<Rightarrow> nat \<Rightarrow> store
     \<Rightarrow> ticket response \<times> store" where
  "escalateTicket verr u tid target rsn nts now s =
     (case u of
        None \<Rightarrow> (Failure 401 ''Authentication required'' [''User not authenticated''], s)
      | Some usr \<Rightarrow>
          (case findById tid s of
             None \<Rightarrow> (Failure 404 ''Ticket not found'' [''Ticket does not exist''], s)
           | Some t \<Rightarrow>
               (let userRole = role usr in
                if userRole = ''L1'' \<and> target \<noteq> L2 then
                  (Failure 400 ''L1 agents can only escalate to L2'' [''Invalid escalation path''], s)
                else if userRole = ''L2'' \<and> target \<noteq> L3 then
                  (Failure 400 ''L2 agents can only escalate to L3'' [''Invalid escalation path''], s)
                else if userRole = ''L3'' then
                  (Failure 400 ''L3 is the highest level, cannot escalate further''
                     [''Invalid escalation attempt''], s)
                else if level_str (currentLevel t) \<noteq> userRole then
                  (Failure 403
                     (''Can only escalate tickets at your current level ('' @ userRole @ '')'')
                     [''Ticket is not at your level''], s)
                else if userRole = ''L2'' \<and> target = L3 \<and> criticalValue t = None then
                  (Failure 400 ''Cannot escalate to L3 without critical value assignment''
                     [''Critical value must be set before escalating to L3''], s)
                else if userRole = ''L2'' \<and> target = L3 \<and> criticalValue t = Some C3 then
                  (Failure 400 ''C3 tickets cannot be escalated to L3''
                     [''Only C1 and C2 tickets can be escalated to L3''], s)
                else
                  (let previousLevel = currentLevel t;
                       t1 = t\<lparr>currentLevel := target\<rparr>;
                       t2 = t1\<lparr>status := Escalated\<rparr>;
                       t3 = t2\<lparr>escalationHistory := escalationHistory t2 @
                              [cast_escalation \<lparr>fromLevel = previousLevel, toLevel = target, reason = rsn,
                                escalatedBy = user_id usr, escalatedAt = now,
                                escalation_notes = nts\<rparr>]\<rparr>;
                       t4 = t3\<lparr>actionLogs := actionLogs t3 @
                              [cast_actionLog \<lparr>action = ''Ticket escalated from '' @ level_str previousLevel
                                         @ '' to '' @ level_str target,
                                performedBy = user_id usr, performedAt = now,
                                details = Some (''Reason: '' @ rsn @
                                         (if truthy nts then '' | Notes: '' @ js_str nts else [])),
                                previousStatus = Some (status t3),
                                newStatus = Some Escalated\<rparr>]\<rparr>
                   in case save verr False now t4 s of
                        Inl e \<Rightarrow> (Failure 500 ''Failed to escalate ticket''
                                   [''Internal server error''], s)
                      | Inr (t5, s') \<Rightarrow>
                          (Success 200 (''Ticket escalated successfully from ''
                             @ level_str previousLevel @ '' to '' @ level_str target) t5, s')))))"

definition addActionLog ::
  "string list \<Rightarrow> user option \<Rightarrow> string \<Rightarrow> string \<Rightarrow> string option \<Rightarrow> nat \<Rightarrow> store
     \<Rightarrow> actionLog response \<times> store" where
  "addActionLog verr u tid act dts now s =
     (case u of
        None \<Rightarrow> (Failure 401 ''Authentication required'' [''User not authenticated''], s)
      | Some usr \<Rightarrow>
          (case findById tid s of
             None \<Rightarrow> (Failure 404 ''Ticket not found'' [''Ticket does not exist''], s)
           | Some t \<Rightarrow>
               (let canAddLog =
                      ((role usr = ''L1'' \<and> currentLevel t = L1) \<or>
                       (role usr = ''L2'' \<and> currentLevel t \<in> set [L1, L2]) \<or>
                       (role usr = ''L3'' \<and> currentLevel t = L3 \<and>
                          criticalValue t \<in> set [Some C1, Some C2]))
                in if \<not> canAddLog then
                     (Failure 403 ''You do not have permission to add action logs to this ticket''
                        [''Insufficient permissions''], s)
                   else
                     (let entry = cast_actionLog \<lparr>action = act, performedBy = user_id usr, performedAt = now,
                                    details = dts, previousStatus = None, newStatus = None\<rparr>;
                          t1 = t\<lparr>actionLogs := actionLogs t @ [entry]\<rparr>
                      in case save verr False now t1 s of
                           Inl e \<Rightarrow> (Failure 500 ''Failed to add action log''
                                      [''Internal server error''], s)
                         | Inr (t2, s') \<Rightarrow>
                             (Success 200 ''Action log added successfully''
                                (last (actionLogs t2)), s')))))"

text \<open>The \<open>resolution\<close> of the body goes through no validator: it may be \<open>undefined\<close>.\<close>

definition resolveTicket ::
  "string list \<Rightarrow> user option \<Rightarrow> string \<Rightarrow> string option \<Rightarrow> nat \<Rightarrow> store
     \<Rightarrow> ticket response \<times> store" where
  "resolveTicket verr u tid resolution now s =
     (case u of
        None \<Rightarrow> (Failure 401 ''Authentication required'' [''User not authenticated''], s)
      | Some usr \<Rightarrow>
          if role usr \<notin> set [''L1'', ''L2'', ''L3''] then
            (Failure 403 ''Only L1, L2, and L3 agents can resolve tickets''
               [''Insufficient permissions''], s)
          else
            (case findById tid s of
               None \<Rightarrow> (Failure 404 ''Ticket not found'' [''Ticket does not exist''], s)
             | Some t \<Rightarrow>
                 (let canResolve =
                        (if role usr = ''L1'' \<and> currentLevel t = L1 then True
                         else if role usr = ''L2'' \<and> currentLevel t = L2 then True
                         else if role usr = ''L3'' \<and> currentLevel t = L3 \<and>
                                 criticalValue t \<in> set [Some C1, Some C2] then True
                         else False)
                  in if \<not> canResolve then
                       (Failure 403
                          (role usr @ '' agents can only resolve tickets at '' @ role usr @ '' level'')
                          [''Insufficient permissions for this ticket level''], s)
                     else
                       (let prev = status t;
                            t1 = t\<lparr>status := Resolved\<rparr>;
                            t2 = t1\<lparr>actionLogs := actionLogs t1 @
                                   [cast_actionLog \<lparr>action = ''Ticket resolved'', performedBy = user_id usr,
                                     performedAt = now,
                                     details = Some (''Resolution: '' @ js_str resolution),
                                     previousStatus = Some prev,
                                     newStatus = Some Resolved\<rparr>]\<rparr>
                        in case save verr False now t2 s of
                             Inl e \<Rightarrow> (Failure 500 ''Failed to resolve ticket''
                                        [''Internal server error''], s)
                           | Inr (t3, s') \<Rightarrow>
                               (Success 200 ''Ticket resolved successfully'' t3, s')))))"

section \<open>The ticket controller (src/unnamed/part_001)\<close>

text \<open>
  \<open>createTicket\<close>: the body has passed \<open>validateTicketCreation\<close>; \<open>new_id\<close> is the
  object id generated for the new document. The defaults of the schema give the status
  New and no critical value. A ValidationError of the save is answered with 400 and
  its messages, any other exception with 500.
\<close>

definition createTicket ::
  "string list \<Rightarrow> user option \<Rightarrow> string \<Rightarrow> string \<Rightarrow> string \<Rightarrow> string \<Rightarrow> priority \<Rightarrow> nat
     \<Rightarrow> nat \<Rightarrow> store \<Rightarrow> ticket response \<times> store" where
  "createTicket verr u new_id ttl dsc cat prio due now s =
     (case u of
        None \<Rightarrow> (Failure 401 ''Authentication required'' [''User not authenticated''], s)
      | Some usr \<Rightarrow>
          if role usr \<noteq> ''L1'' then
            (Failure 403 ''Only L1 agents can create tickets'' [''Insufficient permissions''], s)
          else
            (let t = cast_ticket \<lparr>ticket_id = new_id, title = ttl, description = dsc, category = cat,
                      priority = prio, status = New, criticalValue = None,
                      expectedCompletionDate = due, createdBy = user_id usr,
                      assignedTo = None, currentLevel = L1, escalationHistory = [],
                      actionLogs =
                        [\<lparr>action = ''Ticket created'', performedBy = user_id usr,
                          performedAt = now,
                          details = Some (''Ticket created with priority '' @ priority_str prio),
                          previousStatus = None, newStatus = None\<rparr>],
                      createdAt = now, updatedAt = now\<rparr>
             in case save verr True now t s of
                  Inl (ValidationError es) \<Rightarrow> (Failure 400 ''Validation failed'' es, s)
                | Inl e \<Rightarrow> (Failure 500 ''Failed to create ticket'' [''Internal server error''], s)
                | Inr (t', s') \<Rightarrow> (Success 201 ''Ticket created successfully'' t', s')))"

text \<open>
  The filter object handed to \<open>Ticket.find\<close>: one optional condition per key the code
  assigns, and the list under \<open>$and\<close>. A condition is an equality or a \<open>$in\<close>; it is
  evaluated on the string value of the field, absent when the field is unset.
\<close>

datatype field_cond = Eq string | In "string list"

record query_filter =
  q_createdBy :: "field_cond option"
  q_currentLevel :: "field_cond option"
  q_and :: "(string \<times> field_cond) list"
  q_status :: "field_cond option"
  q_priority :: "field_cond option"

definition field_of :: "string \<Rightarrow> ticket \<Rightarrow> string option" where
  "field_of k t =
     (if k = ''createdBy'' then Some (createdBy t)
      else if k = ''currentLevel'' then Some (level_str (currentLevel t))
      else if k = ''criticalValue'' then map_option crit_str (criticalValue t)
      else if k = ''status'' then Some (status_str (status t))
      else if k = ''priority'' then Some (priority_str (priority t))
      else None)"

fun holds :: "field_cond \<Rightarrow> string option \<Rightarrow> bool" where
  "holds (Eq x) v = (v = Some x)"
| "holds (In xs) v = (case v of None \<Rightarrow> False | Some y \<Rightarrow> y \<in> set xs)"

definition holds_opt :: "field_cond option \<Rightarrow> string option \<Rightarrow> bool" where
  "holds_opt c v = (case c of None \<Rightarrow> True | Some c' \<Rightarrow> holds c' v)"

definition matches :: "query_filter \<Rightarrow> ticket \<Rightarrow> bool" where
  "matches q t =
     (holds_opt (q_createdBy q) (field_of ''createdBy'' t) \<and>
      holds_opt (q_currentLevel q) (field_of ''currentLevel'' t) \<and>
      list_all (\<lambda>(k, c). holds c (field_of k t)) (q_and q) \<and>
      holds_opt (q_status q) (field_of ''status'' t) \<and>
      holds_opt (q_priority q) (field_of ''priority'' t))"

text \<open>
  \<open>getTickets\<close>: the query parameters \<open>status\<close>, \<open>priority\<close> and \<open>level\<close> are optional
  strings, applied when truthy; \<open>pageNum\<close> and \<open>limitNum\<close> are the parsed page and
  limit, taken to be natural numbers. The role filter is built first and the query
  parameters are assigned over it. The matching tickets are sorted by \<open>createdAt\<close>,
  newest first; a negative skip (page 0 with a positive limit) is refused by the store
  and answered with 500; a limit of 0 is no limit. The data are the page and the
  count of all matching tickets.
\<close>

definition getTickets ::
  "user option \<Rightarrow> string option \<Rightarrow> string option \<Rightarrow> string option \<Rightarrow> nat \<Rightarrow> nat \<Rightarrow> store
     \<Rightarrow> (ticket list \<times> nat) response" where
  "getTickets u st pr lv pageNum limitNum s =
     (case u of
        None \<Rightarrow> Failure 401 ''Authentication required'' [''User not authenticated'']
      | Some usr \<Rightarrow>
          (let f0 = \<lparr>q_createdBy = None, q_currentLevel = None, q_and = [],
                     q_status = None, q_priority = None\<rparr>;
               f1 = (if role usr = ''L1'' then f0\<lparr>q_createdBy := Some (Eq (user_id usr))\<rparr>
                     else if role usr = ''L2'' then
                       f0\<lparr>q_currentLevel := Some (In [''L2'', ''L3''])\<rparr>
                     else if role usr = ''L3'' then
                       f0\<lparr>q_and := [(''currentLevel'', Eq ''L3''),
                                    (''criticalValue'', In [''C1'', ''C2''])]\<rparr>
                     else f0);
               f2 = (if truthy st then f1\<lparr>q_status := Some (Eq (js_str st))\<rparr> else f1);
               f3 = (if truthy pr then f2\<lparr>q_priority := Some (Eq (js_str pr))\<rparr> else f2);
               f4 = (if truthy lv then f3\<lparr>q_currentLevel := Some (Eq (js_str lv))\<rparr> else f3);
               found = sort_key (\<lambda>t. - int (createdAt t)) (filter (matches f4) s)
           in if pageNum = 0 \<and> 0 < limitNum then
                Failure 500 ''Failed to retrieve tickets'' [''Internal server error'']
              else
                (let skipped = drop ((pageNum - 1) * limitNum) found;
                     tickets = (if limitNum = 0 then skipped else take limitNum skipped)
                 in Success 200 ''Tickets retrieved successfully'' (tickets, length found))))"

text \<open>
  \<open>getTicketById\<close>: \<open>users\<close> are the ids of the stored users. The ticket is loaded
  with \<open>createdBy\<close> populated, which is null when the creator is no longer stored;
  for an L1 actor the code then reads \<open>ticket.createdBy._id\<close>, and the TypeError is
  answered with 500. For any other role the conjunction stops at the role.
\<close>

definition getTicketById ::
  "string list \<Rightarrow> user option \<Rightarrow> string \<Rightarrow> store \<Rightarrow> ticket response" where
  "getTicketById users u tid s =
     (case u of
        None \<Rightarrow> Failure 401 ''Authentication required'' [''User not authenticated'']
      | Some usr \<Rightarrow>
          (case findById tid s of
             None \<Rightarrow> Failure 404 ''Ticket not found'' [''Ticket does not exist'']
           | Some t \<Rightarrow>
               if role usr = ''L1'' \<and> createdBy t \<notin> set users then
                 Failure 500 ''Failed to retrieve ticket'' [''Internal server error'']
               else
               (let canView =
                      ((role usr = ''L1'' \<and> createdBy t = user_id usr) \<or>
                       (role usr = ''L2'' \<and> currentLevel t \<in> set [L2, L3]) \<or>
                       (role usr = ''L3'' \<and> currentLevel t = L3 \<and>
                          criticalValue t \<in> set [Some C1, Some C2]))
                in if \<not> canView then
                     Failure 403 ''Access denied''
                       [''You do not have permission to view this ticket'']
                   else Success 200 ''Ticket retrieved successfully'' t)))"

text \<open>
  \<open>updateTicketStatus\<close>: the body has passed \<open>validateTicketUpdate\<close>, so \<open>status\<close> and
  \<open>criticalValue\<close> are absent or values of their enumerations.
\<close>

definition updateTicketStatus ::
  "string list \<Rightarrow> user option \<Rightarrow> string \<Rightarrow> status option \<Rightarrow> crit option \<Rightarrow> nat \<Rightarrow> store
     \<Rightarrow> ticket response \<times> store" where
  "updateTicketStatus verr u tid st cv now s =
     (case u of
        None \<Rightarrow> (Failure 401 ''Authentication required'' [''User not authenticated''], s)
      | Some usr \<Rightarrow>
          (case findById tid s of
             None \<Rightarrow> (Failure 404 ''Ticket not found'' [''Ticket does not exist''], s)
           | Some t \<Rightarrow>
               if role usr = ''L1'' \<and> currentLevel t \<noteq> L1 then
                 (Failure 403 ''L1 agents can only update tickets at L1 level''
                    [''Insufficient permissions''], s)
               else if role usr = ''L2'' \<and> currentLevel t \<notin> set [L1, L2] then
                 (Failure 403 ''L2 agents can only update tickets at L1 or L2 level''
                    [''Insufficient permissions''], s)
               else if role usr = ''L3'' \<and> currentLevel t = L3 \<and>
                       criticalValue t \<notin> set [Some C1, Some C2] then
                 (Failure 403 ''L3 agents can only update critical (C1, C2) tickets at L3 level''
                    [''Insufficient permissions''], s)
               else
                 (let prev = status t;
                      t1 = (case st of Some x \<Rightarrow> t\<lparr>status := x\<rparr> | None \<Rightarrow> t);
                      t2 = (if cv \<noteq> None \<and> role usr = ''L2'' then t1\<lparr>criticalValue := cv\<rparr>
                            else t1);
                      new = (case st of Some x \<Rightarrow> x | None \<Rightarrow> prev);
                      t3 = t2\<lparr>actionLogs := actionLogs t2 @
                             [cast_actionLog \<lparr>action = ''Status updated from '' @ status_str prev @ '' to ''
                                        @ status_str new,
                               performedBy = user_id usr, performedAt = now,
                               details = (case cv of
                                            Some c \<Rightarrow> Some (''Critical value set to '' @ crit_str c)
                                          | None \<Rightarrow> None),
                               previousStatus = Some prev, newStatus = Some new\<rparr>]\<rparr>
                  in case save verr False now t3 s of
                       Inl e \<Rightarrow> (Failure 500 ''Failed to update ticket''
                                  [''Internal server error''], s)
                     | Inr (t4, s') \<Rightarrow> (Success 200 ''Ticket updated successfully'' t4, s'))))"

text \<open>
  \<open>updateCriticalValue\<close>: no validator stands before this controller, so the
  \<open>criticalValue\<close> of the body is any optional string, checked here.
\<close>

fun crit_of_str :: "string \<Rightarrow> crit option" where
  "crit_of_str x =
     (if x = ''C1'' then Some C1 else if x = ''C2'' then Some C2
      else if x = ''C3'' then Some C3 else None)"

definition updateCriticalValue ::
  "string list \<Rightarrow> user option \<Rightarrow> string \<Rightarrow> string option \<Rightarrow> nat \<Rightarrow> store
     \<Rightarrow> ticket response \<times> store" where
  "updateCriticalValue verr u tid cv now s =
     (case u of
        None \<Rightarrow> (Failure 401 ''Authentication required'' [''User not authenticated''], s)
      | Some usr \<Rightarrow>
          if role usr \<noteq> ''L2'' then
            (Failure 403 ''Only L2 agents can update critical value''
               [''Insufficient permissions''], s)
          else
            (case (if truthy cv then crit_of_str (js_str cv) else None) of
               None \<Rightarrow> (Failure 400 ''Invalid critical value''
                          [''Critical value must be C1, C2, or C3''], s)
             | Some c \<Rightarrow>
                 (case findById tid s of
                    None \<Rightarrow> (Failure 404 ''Ticket not found'' [''Ticket does not exist''], s)
                  | Some t \<Rightarrow>
                      if currentLevel t \<noteq> L2 then
                        (Failure 403 ''Can only update critical value for tickets at L2 level''
                           [''Ticket not at L2 level''], s)
                      else
                        (let previousCriticalValue = criticalValue t;
                             t1 = t\<lparr>criticalValue := Some c\<rparr>;
                             t2 = t1\<lparr>actionLogs := actionLogs t1 @
                                    [cast_actionLog \<lparr>action = ''Critical value updated'',
                                      performedBy = user_id usr, performedAt = now,
                                      details = Some (''Critical value changed from '' @
                                        (case previousCriticalValue of
                                           None \<Rightarrow> ''none'' | Some p \<Rightarrow> crit_str p)
                                        @ '' to '' @ crit_str c),
                                      previousStatus = None, newStatus = None\<rparr>]\<rparr>
                         in case save verr False now t2 s of
                              Inl e \<Rightarrow> (Failure 500 ''Failed to update critical value''
                                         [''Internal server error''], s)
                            | Inr (t3, s') \<Rightarrow>
                                (Success 200 ''Critical value updated successfully'' t3, s')))))"

section \<open>src/src/routes/tickets.ts\<close>

text \<open>
  \<open>authorizeRoles\<close> answers with a failure, or with nothing when it calls \<open>next()\<close>.
  Every route stands behind \<open>authenticateToken\<close>, so the routes take an authenticated
  actor. The status route has no role guard.
\<close>

definition authorizeRoles :: "string list \<Rightarrow> user option \<Rightarrow> 'a response option" where
  "authorizeRoles roles u =
     (case u of
        None \<Rightarrow> Some (Failure 401 ''Authentication required'' [''User not authenticated''])
      | Some usr \<Rightarrow>
          if role usr \<notin> set roles then
            Some (Failure 403 ''Insufficient permissions''
                    [''Role '' @ role usr @ '' not authorized for this action''])
          else None)"

definition route_post_ticket ::
  "string list \<Rightarrow> user \<Rightarrow> string \<Rightarrow> string \<Rightarrow> string \<Rightarrow> string \<Rightarrow> priority \<Rightarrow> nat
     \<Rightarrow> nat \<Rightarrow> store \<Rightarrow> ticket response \<times> store" where
  "route_post_ticket verr usr new_id ttl dsc cat prio due now s =
     (case authorizeRoles [''L1''] (Some usr) of
        Some r \<Rightarrow> (r, s)
      | None \<Rightarrow> createTicket verr (Some usr) new_id ttl dsc cat prio due now s)"


definition route_patch_critical_value ::
  "string list \<Rightarrow> user \<Rightarrow> string \<Rightarrow> string option \<Rightarrow> nat \<Rightarrow> store
     \<Rightarrow> ticket response \<times> store" where
  "route_patch_critical_value verr usr tid cv now s =
     (case authorizeRoles [''L2''] (Some usr) of
        Some r \<Rightarrow> (r, s)
      | None \<Rightarrow> updateCriticalValue verr (Some usr) tid cv now s)"

definition route_post_escalate ::
  "string list \<Rightarrow> user \<Rightarrow> string \<Rightarrow> level \<Rightarrow> string \<Rightarrow> string option \<Rightarrow> nat \<Rightarrow> store
     \<Rightarrow> ticket response \<times> store" where
  "route_post_escalate verr usr tid target rsn nts now s =
     (case authorizeRoles [''L1'', ''L2''] (Some usr) of
        Some r \<Rightarrow> (r, s)
      | None \<Rightarrow> escalateTicket verr (Some usr) tid target rsn nts now s)"

definition route_post_action_log ::
  "string list \<Rightarrow> user \<Rightarrow> string \<Rightarrow> string \<Rightarrow> string option \<Rightarrow> nat \<Rightarrow> store
     \<Rightarrow> actionLog response \<times> store" where
  "route_post_action_log verr usr tid act dts now s =
     (case authorizeRoles [''L1'', ''L2'', ''L3''] (Some usr) of
        Some r \<Rightarrow> (r, s)
      | None \<Rightarrow> addActionLog verr (Some usr) tid act dts now s)"

definition route_post_resolve ::
  "string list \<Rightarrow> user \<Rightarrow> string \<Rightarrow> string option \<Rightarrow> nat \<Rightarrow> store
     \<Rightarrow> ticket response \<times> store" where
  "route_post_resolve verr usr tid resolution now s =
     (case authorizeRoles [''L1'', ''L2'', ''L3''] (Some usr) of
        Some r \<Rightarrow> (r, s)
      | None \<Rightarrow> resolveTicket verr (Some usr) tid resolution now s)"

section \<open>The mutating operations as one step function\<close>

text \<open>
  The six mutating operations with their arguments; \<open>run\<close> calls the controller and
  returns whether it answered with a success, and the store it leaves; \<open>target\<close> is
  the id of the ticket the operation is about.
\<close>

datatype operation =
  Create "string list" "user option" string string string string priority nat nat
| UpdateStatus "string list" "user option" string "status option" "crit option" nat
| AssignCriticality "string list" "user option" string "string option" nat
| Escalate "string list" "user option" string level string "string option" nat
| Resolve "string list" "user option" string "string option" nat
| AddActionLog "string list" "user option" string string "string option" nat

fun run :: "operation \<Rightarrow> store \<Rightarrow> bool \<times> store" where
  "run (Create verr u new_id ttl dsc cat prio due now) s =
     (case createTicket verr u new_id ttl dsc cat prio due now s of (r, s') \<Rightarrow> (is_success r, s'))"
| "run (UpdateStatus verr u tid st cv now) s =
     (case updateTicketStatus verr u tid st cv now s of (r, s') \<Rightarrow> (is_success r, s'))"
| "run (AssignCriticality verr u tid cv now) s =
     (case updateCriticalValue verr u tid cv now s of (r, s') \<Rightarrow> (is_success r, s'))"
| "run (Escalate verr u tid target rsn nts now) s =
     (case escalateTicket verr u tid target rsn nts now s of (r, s') \<Rightarrow> (is_success r, s'))"
| "run (Resolve verr u tid resolution now) s =
     (case resolveTicket verr u tid resolution now s of (r, s') \<Rightarrow> (is_success r, s'))"
| "run (AddActionLog verr u tid act dts now) s =
     (case addActionLog verr u tid act dts now s of (r, s') \<Rightarrow> (is_success r, s'))"

fun target_id :: "operation \<Rightarrow> string" where
  "target_id (Create verr u new_id ttl dsc cat prio due now) = new_id"
| "target_id (UpdateStatus verr u tid st cv now) = tid"
| "target_id (AssignCriticality verr u tid cv now) = tid"
| "target_id (Escalate verr u tid target rsn nts now) = tid"
| "target_id (Resolve verr u tid resolution now) = tid"
| "target_id (AddActionLog verr u tid act dts now) = tid"

fun is_escalate :: "operation \<Rightarrow> bool" where
  "is_escalate (Escalate verr u tid target rsn nts now) = True"
| "is_escalate other = False"

text \<open>The structural invariant: no stored ticket is at L3 with critical value C3.\<close>

definition l3_not_c3 :: "ticket \<Rightarrow> bool" where
  "l3_not_c3 t = (currentLevel t = L3 \<longrightarrow> criticalValue t \<noteq> Some C3)"

definition store_inv :: "store \<Rightarrow> bool" where
  "store_inv s = list_all l3_not_c3 s"

text \<open>A sequence of operations, run from left to right.\<close>

fun run_all :: "operation list \<Rightarrow> store \<Rightarrow> store" where
  "run_all [] s = s"
| "run_all (op # ops) s = run_all ops (snd (run op s))"

text \<open>
  The audit trail of the ticket with id \<open>i\<close> as the store holds it (empty when there
  is no such ticket), and what an operation on the ticket \<open>tid\<close> may do to the trails:
  append one action log entry to that ticket, one escalation record when \<open>esc\<close> and
  none otherwise, and leave every other ticket as it was.
\<close>

definition logs_of :: "string \<Rightarrow> store \<Rightarrow> actionLog list" where
  "logs_of i s = (case findById i s of None \<Rightarrow> [] | Some t \<Rightarrow> actionLogs t)"

definition escalations_of :: "string \<Rightarrow> store \<Rightarrow> escalation list" where
  "escalations_of i s = (case findById i s of None \<Rightarrow> [] | Some t \<Rightarrow> escalationHistory t)"

definition appends_log :: "string \<Rightarrow> bool \<Rightarrow> store \<Rightarrow> store \<Rightarrow> bool" where
  "appends_log tid esc s s' =
     ((\<exists>e. logs_of tid s' = logs_of tid s @ [e]) \<and>
      (if esc then (\<exists>r. escalations_of tid s' = escalations_of tid s @ [r])
       else escalations_of tid s' = escalations_of tid s) \<and>
      (\<forall>i. i \<noteq> tid \<longrightarrow> findById i s' = findById i s))"

text \<open>
  \<open>mentions msg w\<close>: the word \<open>w\<close> occurs in the message \<open>msg\<close> (as a contiguous
  run of characters); a message names a role or a level when it mentions its string.
\<close>

fun is_prefix_of :: "string \<Rightarrow> string \<Rightarrow> bool" where
  "is_prefix_of [] ys = True"
| "is_prefix_of (x # xs) [] = False"
| "is_prefix_of (x # xs) (y # ys) = (x = y \<and> is_prefix_of xs ys)"

fun mentions :: "string \<Rightarrow> string \<Rightarrow> bool" where
  "mentions [] w = (w = [])"
| "mentions (c # cs) w = (is_prefix_of w (c # cs) \<or> mentions cs w)"

section \<open>Sample actors and tickets\<close>

text \<open>
  The actors of the seed data, one more whose role is none of the three levels, and
  the ticket that \<open>createTestTicket\<close> of the test helpers stores, at a chosen level
  and critical value.
\<close>

definition sample_id :: string where
  "sample_id = ''507f1f77bcf86cd799439011''"

definition agent_l1 :: user where
  "agent_l1 = \<lparr>user_id = ''64b7f0a1c2d3e4f5a6b7c801'', role = ''L1'', username = ''agent_l1''\<rparr>"

definition support_l2 :: user where
  "support_l2 = \<lparr>user_id = ''64b7f0a1c2d3e4f5a6b7c802'', role = ''L2'', username = ''support_l2''\<rparr>"

definition advanced_l3 :: user where
  "advanced_l3 = \<lparr>user_id = ''64b7f0a1c2d3e4f5a6b7c803'', role = ''L3'', username = ''advanced_l3''\<rparr>"

definition admin :: user where
  "admin = \<lparr>user_id = ''64b7f0a1c2d3e4f5a6b7c804'', role = ''Admin'', username = ''admin''\<rparr>"

definition test_ticket :: "level \<Rightarrow> crit option \<Rightarrow> ticket" where
  "test_ticket l c =
     \<lparr>ticket_id = sample_id, title = ''Test Ticket'', description = ''Test ticket description'',
      category = ''Software'', priority = Medium, status = Attending, criticalValue = c,
      expectedCompletionDate = 7, createdBy = ''64b7f0a1c2d3e4f5a6b7c801'', assignedTo = None, currentLevel = l,
      escalationHistory = [],
      actionLogs = [\<lparr>action = ''Ticket created'', performedBy = ''64b7f0a1c2d3e4f5a6b7c801'', performedAt = 0,
                     details = None, previousStatus = None, newStatus = None\<rparr>],
      createdAt = 0, updatedAt = 0\<rparr>"

section \<open>Facts about the store\<close>

lemma findById_Nil [simp]: "findById i [] = None"
  by (simp add: findById_def)

lemma findById_Cons [simp]:
  "findById i (t # s) = (if ticket_id t = i then Some t else findById i s)"
  by (simp add: findById_def)

lemma findById_id: "findById i s = Some t \<Longrightarrow> ticket_id t = i"
  by (induction s) (auto split: if_splits)


lemma findById_append:
  "findById i (s @ [d]) =
     (case findById i s of Some t \<Rightarrow> Some t
      | None \<Rightarrow> if ticket_id d = i then Some d else None)"
  by (induction s) auto

lemma findById_replace:
  "ticket_id d = k \<Longrightarrow>
   findById i (map (\<lambda>x. if ticket_id x = k then d else x) s) =
     (if i = k then (case findById k s of None \<Rightarrow> None | Some t \<Rightarrow> Some d)
      else findById i s)"
  by (induction s) auto

lemma store_inv_replace:
  "store_inv s \<Longrightarrow> l3_not_c3 d \<Longrightarrow> store_inv (map (\<lambda>x. if ticket_id x = k then d else x) s)"
  by (induction s) (auto simp: store_inv_def)

lemma store_inv_append: "store_inv s \<Longrightarrow> l3_not_c3 d \<Longrightarrow> store_inv (s @ [d])"
  by (simp add: store_inv_def)


text \<open>What a save that goes through has checked and written.\<close>

lemma validate_empty:
  "validate verr now t = [] \<longleftrightarrow> verr = [] \<and> now < expectedCompletionDate t"
  by (simp add: validate_def)

lemma save_inv:
  "save verr isNew now t s = Inr (t', s') \<Longrightarrow> store_inv s \<Longrightarrow> store_inv s'"
  by (auto simp: save_def pre_save_def Let_def l3_not_c3_def
           intro!: store_inv_replace store_inv_append split: if_splits option.splits)


lemma trim_critical_value_set:
  "trim (''Critical value set to '' @ crit_str c) = ''Critical value set to '' @ crit_str c"
  by (cases c) (simp_all add: trim_def is_space_def)

lemmas model_defs = save_def validate_def pre_save_def Let_def cast_actionLog_def
  cast_escalation_def cast_ticket_def trim_def is_space_def

lemmas sample_defs = test_ticket_def sample_id_def agent_l1_def support_l2_def
  advanced_l3_def admin_def

section \<open>The structural invariant\<close>

text \<open>
  Whatever a controller does, it leaves the store as it was or as a save that went
  through has written it, and such a save has passed the \<open>pre('save')\<close> hook.
\<close>

lemma saved_or_untouched_inv:
  "store_inv s \<Longrightarrow>
   store_inv (snd (case save verr b now t s of
                     Inl e \<Rightarrow> (F e, s) | Inr (t', s') \<Rightarrow> (G t' s', s')))"
  by (auto split: sum.splits dest: save_inv)

lemma createTicket_inv:
  "store_inv s \<Longrightarrow> store_inv (snd (createTicket verr u new_id ttl dsc cat prio due now s))"
  by (auto simp: createTicket_def Let_def split: option.splits sum.splits save_error.splits
           dest: save_inv)

lemma updateTicketStatus_inv:
  "store_inv s \<Longrightarrow> store_inv (snd (updateTicketStatus verr u tid st cv now s))"
  by (simp add: updateTicketStatus_def Let_def saved_or_untouched_inv split: option.split)

lemma updateCriticalValue_inv:
  "store_inv s \<Longrightarrow> store_inv (snd (updateCriticalValue verr u tid cv now s))"
  by (simp add: updateCriticalValue_def Let_def saved_or_untouched_inv split: option.split)

lemma escalateTicket_inv:
  "store_inv s \<Longrightarrow> store_inv (snd (escalateTicket verr u tid target rsn nts now s))"
  by (simp add: escalateTicket_def Let_def saved_or_untouched_inv split: option.split)

lemma resolveTicket_inv:
  "store_inv s \<Longrightarrow> store_inv (snd (resolveTicket verr u tid res now s))"
  by (simp add: resolveTicket_def Let_def saved_or_untouched_inv split: option.split)

lemma addActionLog_inv:
  "store_inv s \<Longrightarrow> store_inv (snd (addActionLog verr u tid act dts now s))"
  by (simp add: addActionLog_def Let_def saved_or_untouched_inv split: option.split)

lemma run_inv: "store_inv s \<Longrightarrow> store_inv (snd (run op s))"
  by (cases op)
     (simp_all add: split_beta createTicket_inv updateTicketStatus_inv updateCriticalValue_inv
        escalateTicket_inv resolveTicket_inv addActionLog_inv)

text \<open>Every store reached from the empty one by the six operations has the invariant.\<close>

lemma run_all_inv: "store_inv s \<Longrightarrow> store_inv (run_all ops s)"
  by (induction ops arbitrary: s) (simp_all add: run_inv)

lemma reachable_store_inv: "store_inv (run_all ops [])"
  by (rule run_all_inv) (simp add: store_inv_def)

text \<open>
  C1. If no stored ticket is at L3 with critical value C3, then after any of the six
  operations (create, update status, assign criticality, escalate, resolve, add action
  log), with any arguments and whether it succeeds or fails, every stored ticket whose
  \<open>currentLevel\<close> is L3 has a \<open>criticalValue\<close> other than C3.
\<close>

theorem l3_ticket_never_c3:
  assumes "store_inv s"
  shows "\<forall>t \<in> set (snd (run op s)). currentLevel t = L3 \<longrightarrow> criticalValue t \<noteq> Some C3"
  using run_inv[OF assms, of op]
  by (simp add: store_inv_def list_all_iff l3_not_c3_def)

theorem l3_ticket_never_c3_witness:
  "store_inv [test_ticket L2 (Some C1)] \<and>
   map currentLevel
     (snd (run (Escalate [] (Some support_l2) sample_id L3 ''Needs L3'' None 1)
             [test_ticket L2 (Some C1)])) = [L3] \<and>
   map criticalValue
     (snd (run (Escalate [] (Some support_l2) sample_id L3 ''Needs L3'' None 1)
             [test_ticket L2 (Some C1)])) = [Some C1]"
  using l3_ticket_never_c3
          [of "[test_ticket L2 (Some C1)]"
              "Escalate [] (Some support_l2) sample_id L3 ''Needs L3'' None 1"]
  by (simp add: store_inv_def l3_not_c3_def escalateTicket_def model_defs sample_defs)

section \<open>Resolve: the role against the level\<close>




text \<open>
  C7, as stated, fails: the denial of a mismatched Resolve is built from the actor's
  role alone. An L1 actor resolving a ticket at L2 is answered 403 with the message
  \<open>L1 agents can only resolve tickets at L1 level\<close>, which does not mention L2.
\<close>

theorem resolve_denial_names_level_counterexample:
  "status_code (fst (resolveTicket [] (Some agent_l1) sample_id (Some ''done'') 1
                       [test_ticket L2 None])) = 403 \<and>
   message (fst (resolveTicket [] (Some agent_l1) sample_id (Some ''done'') 1
                   [test_ticket L2 None]))
     = ''L1 agents can only resolve tickets at L1 level'' \<and>
   \<not> mentions (message (fst (resolveTicket [] (Some agent_l1) sample_id (Some ''done'') 1
                               [test_ticket L2 None])))
         (level_str (currentLevel (test_ticket L2 None)))"
  by (simp add: resolveTicket_def Let_def test_ticket_def sample_id_def agent_l1_def)

text \<open>
  C7, amended. For every mismatched Resolve attempt (the actor's role R is L1, L2 or
  L3 and differs from the level T of the stored ticket) the answer is the 403 denial
  whose message is \<open>R agents can only resolve tickets at R level\<close>: it names the
  actor's role, and it does not name the ticket's level.
\<close>

theorem resolve_denial_names_role:
  assumes "findById tid s = Some t" and "role usr \<in> {''L1'', ''L2'', ''L3''}"
      and "role usr \<noteq> level_str (currentLevel t)"
  shows "status_code (fst (resolveTicket verr (Some usr) tid res now s)) = 403 \<and>
         message (fst (resolveTicket verr (Some usr) tid res now s)) =
           role usr @ '' agents can only resolve tickets at '' @ role usr @ '' level'' \<and>
         mentions (message (fst (resolveTicket verr (Some usr) tid res now s))) (role usr) \<and>
         \<not> mentions (message (fst (resolveTicket verr (Some usr) tid res now s)))
              (level_str (currentLevel t))"
  using assms
  by (cases "currentLevel t") (auto simp: resolveTicket_def Let_def)

theorem resolve_denial_names_role_witness:
  "findById sample_id [test_ticket L1 None] = Some (test_ticket L1 None) \<and>
   role advanced_l3 \<in> {''L1'', ''L2'', ''L3''} \<and>
   role advanced_l3 \<noteq> level_str (currentLevel (test_ticket L1 None)) \<and>
   status_code (fst (resolveTicket [] (Some advanced_l3) sample_id None 1
                       [test_ticket L1 None])) = 403 \<and>
   message (fst (resolveTicket [] (Some advanced_l3) sample_id None 1 [test_ticket L1 None]))
     = ''L3 agents can only resolve tickets at L3 level''"
  using resolve_denial_names_role
          [of sample_id "[test_ticket L1 None]" "test_ticket L1 None" advanced_l3 "[]" None 1]
  by (simp add: test_ticket_def sample_id_def advanced_l3_def)

section \<open>An L3 actor: update status and add action log\<close>

text \<open>
  C3, as stated, fails for UpdateStatus: \<open>updateTicketStatus\<close> checks an L3 actor
  only against tickets at L3. An L3 actor updating the status of a ticket at L1 is
  answered with a success.
\<close>

theorem l3_update_below_l3_counterexample:
  "role advanced_l3 = ''L3'' \<and>
   is_success (fst (updateTicketStatus [] (Some advanced_l3) sample_id (Some Completed) None 1
                      [test_ticket L1 None])) \<and>
   \<not> (currentLevel (test_ticket L1 None) = L3 \<and>
        criticalValue (test_ticket L1 None) \<in> {Some C1, Some C2})"
  by (simp add: updateTicketStatus_def model_defs sample_defs)

text \<open>
  C3, amended. For an actor with role L3 and a stored ticket: AddActionLog is
  permitted if and only if the ticket is at L3 with critical value C1 or C2, and is
  denied (403) otherwise, so on every ticket at L1 or L2; UpdateStatus is permitted
  if and only if the ticket is at L1 or L2, or at L3 with critical value C1 or C2,
  and is denied (403) exactly on a ticket at L3 whose critical value is neither.
  (Permitted: the operation succeeds whenever the document passes the validation of
  the save, that is, the built-in validators pass and the expected completion date is
  after the clock.)
\<close>

theorem l3_actor_permissions:
  assumes "findById tid s = Some t" and "role usr = ''L3''"
  shows "(is_success (fst (addActionLog verr (Some usr) tid act dts now s)) \<longleftrightarrow>
            (currentLevel t = L3 \<and> criticalValue t \<in> {Some C1, Some C2}) \<and>
            verr = [] \<and> now < expectedCompletionDate t) \<and>
         (status_code (fst (addActionLog verr (Some usr) tid act dts now s)) = 403 \<longleftrightarrow>
            \<not> (currentLevel t = L3 \<and> criticalValue t \<in> {Some C1, Some C2})) \<and>
         (is_success (fst (updateTicketStatus verr (Some usr) tid st cv now s)) \<longleftrightarrow>
            (currentLevel t \<in> {L1, L2} \<or>
             currentLevel t = L3 \<and> criticalValue t \<in> {Some C1, Some C2}) \<and>
            verr = [] \<and> now < expectedCompletionDate t) \<and>
         (status_code (fst (updateTicketStatus verr (Some usr) tid st cv now s)) = 403 \<longleftrightarrow>
            currentLevel t = L3 \<and> criticalValue t \<notin> {Some C1, Some C2})"
  using assms
  by (cases "currentLevel t"; cases "criticalValue t"; cases st)
     (auto simp: addActionLog_def updateTicketStatus_def save_def validate_empty
        pre_save_def Let_def)

theorem l3_actor_permissions_witness:
  "findById sample_id [test_ticket L3 (Some C2)] = Some (test_ticket L3 (Some C2)) \<and>
   role advanced_l3 = ''L3'' \<and>
   is_success (fst (addActionLog [] (Some advanced_l3) sample_id ''Investigating'' None 1
                      [test_ticket L3 (Some C2)])) \<and>
   is_success (fst (updateTicketStatus [] (Some advanced_l3) sample_id (Some Attending) None 1
                      [test_ticket L3 (Some C2)]))"
  using l3_actor_permissions
          [of sample_id "[test_ticket L3 (Some C2)]" "test_ticket L3 (Some C2)" advanced_l3
              "[]" "''Investigating''" None 1 "Some Attending" None]
  by (simp add: test_ticket_def sample_id_def advanced_l3_def)

section \<open>Escalate: the action log entry\<close>

text \<open>
  C4 does not hold of the code: \<open>escalateTicket\<close> sets the status to Escalated
  before it builds the action log entry, whose \<open>previousStatus\<close> is read from the
  ticket at that moment. An L1 actor escalating a ticket at L1 whose status is
  Attending succeeds, and the entry appended has \<open>previousStatus\<close> Escalated (not
  Attending) and \<open>newStatus\<close> Escalated.
\<close>

theorem escalate_logs_previousStatus_Escalated:
  "status (test_ticket L1 None) = Attending \<and>
   (case fst (escalateTicket [] (Some agent_l1) sample_id L2 ''Complex issue'' None 1
                [test_ticket L1 None]) of
      Success c m t' \<Rightarrow>
        map previousStatus (actionLogs t') = [None, Some Escalated] \<and>
        map newStatus (actionLogs t') = [None, Some Escalated]
    | Failure c m es \<Rightarrow> False)"
  by (simp add: escalateTicket_def model_defs sample_defs)

text \<open>
  The same holds of every successful escalation, whatever the status was before.
\<close>

lemma escalate_previousStatus_always_Escalated:
  assumes "is_success (fst (escalateTicket verr u tid target rsn nts now s))"
  shows "\<exists>t'. findById tid (snd (escalateTicket verr u tid target rsn nts now s)) = Some t' \<and>
           previousStatus (last (actionLogs t')) = Some Escalated \<and> status t' = Escalated"
proof (cases u)
  case None
  with assms show ?thesis by (simp add: escalateTicket_def)
next
  case u: (Some usr)
  show ?thesis
  proof (cases "findById tid s")
    case None
    with u assms show ?thesis by (simp add: escalateTicket_def)
  next
    case (Some t)
    with u findById_id[OF Some] assms show ?thesis
      by (auto simp: escalateTicket_def save_def pre_save_def Let_def findById_replace
            cast_actionLog_def split: if_splits)
  qed
qed

section \<open>The audit trail is appended to\<close>

lemmas appends_defs = save_def validate_empty pre_save_def Let_def findById_replace
  findById_append
  appends_log_def logs_of_def escalations_of_def

lemma resolveTicket_appends:
  "is_success (fst (resolveTicket verr u tid res now s)) \<longrightarrow>
   appends_log tid False s (snd (resolveTicket verr u tid res now s))"
proof (cases u)
  case None
  then show ?thesis by (simp add: resolveTicket_def)
next
  case u: (Some usr)
  show ?thesis
  proof (cases "findById tid s")
    case None
    with u show ?thesis by (simp add: resolveTicket_def)
  next
    case (Some t)
    with u findById_id[OF Some] show ?thesis
      by (simp add: resolveTicket_def appends_defs)
  qed
qed

lemma addActionLog_appends:
  "is_success (fst (addActionLog verr u tid act dts now s)) \<longrightarrow>
   appends_log tid False s (snd (addActionLog verr u tid act dts now s))"
proof (cases u)
  case None
  then show ?thesis by (simp add: addActionLog_def)
next
  case u: (Some usr)
  show ?thesis
  proof (cases "findById tid s")
    case None
    with u show ?thesis by (simp add: addActionLog_def)
  next
    case (Some t)
    with u findById_id[OF Some] show ?thesis
      by (simp add: addActionLog_def appends_defs)
  qed
qed

lemma escalateTicket_appends:
  "is_success (fst (escalateTicket verr u tid target rsn nts now s)) \<longrightarrow>
   appends_log tid True s (snd (escalateTicket verr u tid target rsn nts now s))"
proof (cases u)
  case None
  then show ?thesis by (simp add: escalateTicket_def)
next
  case u: (Some usr)
  show ?thesis
  proof (cases "findById tid s")
    case None
    with u show ?thesis by (simp add: escalateTicket_def)
  next
    case (Some t)
    with u findById_id[OF Some] show ?thesis
      by (simp add: escalateTicket_def appends_defs)
  qed
qed

lemma updateTicketStatus_appends:
  "is_success (fst (updateTicketStatus verr u tid st cv now s)) \<longrightarrow>
   appends_log tid False s (snd (updateTicketStatus verr u tid st cv now s))"
proof (cases u)
  case None
  then show ?thesis by (simp add: updateTicketStatus_def)
next
  case u: (Some usr)
  show ?thesis
  proof (cases "findById tid s")
    case None
    with u show ?thesis by (simp add: updateTicketStatus_def)
  next
    case (Some t)
    with u findById_id[OF Some] show ?thesis
      by (cases st) (simp_all add: updateTicketStatus_def appends_defs)
  qed
qed

lemma updateCriticalValue_appends:
  "is_success (fst (updateCriticalValue verr u tid cv now s)) \<longrightarrow>
   appends_log tid False s (snd (updateCriticalValue verr u tid cv now s))"
proof (cases u)
  case None
  then show ?thesis by (simp add: updateCriticalValue_def)
next
  case u: (Some usr)
  show ?thesis
  proof (cases "findById tid s")
    case None
    with u show ?thesis by (simp add: updateCriticalValue_def split: option.split)
  next
    case (Some t)
    with u findById_id[OF Some] show ?thesis
      by (simp add: updateCriticalValue_def appends_defs split: option.split)
  qed
qed

lemma createTicket_appends:
  "is_success (fst (createTicket verr u new_id ttl dsc cat prio due now s)) \<longrightarrow>
   appends_log new_id False s (snd (createTicket verr u new_id ttl dsc cat prio due now s))"
proof (cases u)
  case None
  then show ?thesis by (simp add: createTicket_def)
next
  case u: (Some usr)
  show ?thesis
  proof (cases "findById new_id s")
    case None
    with u show ?thesis
      by (simp add: createTicket_def cast_ticket_def appends_defs split: option.split)
  next
    case (Some t)
    with u show ?thesis by (simp add: createTicket_def cast_ticket_def appends_defs)
  qed
qed

lemma run_appends:
  "fst (run op s) \<Longrightarrow> appends_log (target_id op) (is_escalate op) s (snd (run op s))"
  using createTicket_appends updateTicketStatus_appends updateCriticalValue_appends
    escalateTicket_appends resolveTicket_appends addActionLog_appends
  by (cases op) (auto simp: split_beta)

text \<open>
  C5. For every successful mutating operation (create, update status, assign
  criticality, escalate, resolve, add action log), the action logs of the ticket it is
  about are the former ones followed by exactly one new entry (for create: no former
  ones), so their number grows by exactly 1; its escalation history is the former one
  followed by exactly one new record for escalate, and unchanged for the others; and
  the trails of every other ticket are as they were.
\<close>

theorem successful_operation_appends_one_log:
  assumes "fst (run op s)"
  shows "(\<exists>e. logs_of (target_id op) (snd (run op s)) = logs_of (target_id op) s @ [e]) \<and>
         length (logs_of (target_id op) (snd (run op s)))
           = length (logs_of (target_id op) s) + 1 \<and>
         (if is_escalate op
          then (\<exists>r. escalations_of (target_id op) (snd (run op s))
                      = escalations_of (target_id op) s @ [r])
          else escalations_of (target_id op) (snd (run op s))
                 = escalations_of (target_id op) s) \<and>
         (\<forall>i. i \<noteq> target_id op \<longrightarrow>
              logs_of i (snd (run op s)) = logs_of i s \<and>
              escalations_of i (snd (run op s)) = escalations_of i s)"
  using run_appends[OF assms]
  by (auto simp: appends_log_def logs_of_def escalations_of_def)

theorem successful_operation_appends_one_log_witness:
  "fst (run (Escalate [] (Some agent_l1) sample_id L2 ''Complex issue'' None 1)
          [test_ticket L1 None]) \<and>
   length (logs_of sample_id [test_ticket L1 None]) = 1 \<and>
   length (logs_of sample_id
     (snd (run (Escalate [] (Some agent_l1) sample_id L2 ''Complex issue'' None 1)
             [test_ticket L1 None]))) = 2 \<and>
   length (escalations_of sample_id
     (snd (run (Escalate [] (Some agent_l1) sample_id L2 ''Complex issue'' None 1)
             [test_ticket L1 None]))) = 1"
  using successful_operation_appends_one_log
          [of "Escalate [] (Some agent_l1) sample_id L2 ''Complex issue'' None 1"
              "[test_ticket L1 None]"]
  by (simp add: escalateTicket_def model_defs sample_defs logs_of_def escalations_of_def)

section \<open>Listing\<close>

text \<open>
  Without a \<open>level\<close> query parameter the list of an L2 actor holds tickets at L2 and
  L3 only.
\<close>

lemma getTickets_l2_scope:
  assumes "role usr = ''L2''" and "\<not> truthy lv"
      and "getTickets (Some usr) st pr lv p l s = Success c m (ts, n)" and "t \<in> set ts"
  shows "currentLevel t \<in> {L2, L3}"
proof -
  from assms have "\<exists>f. matches f t \<and> q_currentLevel f = Some (In [''L2'', ''L3''])"
    by (auto simp: getTickets_def Let_def split: if_splits dest!: in_set_takeD in_set_dropD)
  then show ?thesis
    by (cases "currentLevel t") (auto simp: matches_def holds_opt_def field_of_def)
qed

text \<open>
  C6 does not hold of the code: the \<open>level\<close> query parameter is assigned to the same
  key of the filter as the role condition of an L2 actor and replaces it. An L2 actor
  listing with \<open>level=L1\<close> (page 1, limit 10) is given the stored ticket at L1, which
  \<open>getTicketById\<close> refuses to show to the same actor.
\<close>

theorem l2_listing_by_level_returns_l1_ticket:
  "getTickets (Some support_l2) None None (Some ''L1'') 1 10 [test_ticket L1 None] =
     Success 200 ''Tickets retrieved successfully'' ([test_ticket L1 None], 1) \<and>
   currentLevel (test_ticket L1 None) = L1 \<and>
   status_code (getTicketById users (Some support_l2) sample_id [test_ticket L1 None]) = 403"
  by (simp add: getTickets_def getTicketById_def Let_def matches_def holds_opt_def
        field_of_def test_ticket_def sample_id_def support_l2_def)

section \<open>A critical value in the payload of a status update\<close>




text \<open>
  C10. For an UpdateStatus call by an actor whose role is not L2, with a
  \<open>criticalValue\<close> c in the payload, that succeeds: the action log entry appended to
  the ticket has the details \<open>Critical value set to c\<close>, and the ticket's
  \<open>criticalValue\<close> is what it was before the call.
\<close>

theorem non_l2_update_logs_unapplied_criticalValue:
  assumes "role usr \<noteq> ''L2''" and "findById tid s = Some t"
      and "is_success (fst (updateTicketStatus verr (Some usr) tid st (Some c) now s))"
  shows "\<exists>t' e. findById tid (snd (updateTicketStatus verr (Some usr) tid st (Some c) now s))
                  = Some t' \<and>
           actionLogs t' = actionLogs t @ [e] \<and>
           details e = Some (''Critical value set to '' @ crit_str c) \<and>
           criticalValue t' = criticalValue t"
  using assms findById_id[OF assms(2)]
  by (cases st)
     (auto simp: updateTicketStatus_def save_def pre_save_def Let_def findById_replace
        cast_actionLog_def trim_critical_value_set simp del: append.simps
        split: if_splits)

theorem non_l2_update_logs_unapplied_criticalValue_witness:
  "role advanced_l3 \<noteq> ''L2'' \<and>
   findById sample_id [test_ticket L3 (Some C2)] = Some (test_ticket L3 (Some C2)) \<and>
   is_success (fst (updateTicketStatus [] (Some advanced_l3) sample_id None (Some C1) 1
                      [test_ticket L3 (Some C2)])) \<and>
   map (\<lambda>t. details (last (actionLogs t)))
     (snd (updateTicketStatus [] (Some advanced_l3) sample_id None (Some C1) 1
             [test_ticket L3 (Some C2)])) = [Some ''Critical value set to C1''] \<and>
   map criticalValue
     (snd (updateTicketStatus [] (Some advanced_l3) sample_id None (Some C1) 1
             [test_ticket L3 (Some C2)])) = [Some C2]"
  using non_l2_update_logs_unapplied_criticalValue
          [of advanced_l3 sample_id "[test_ticket L3 (Some C2)]" "test_ticket L3 (Some C2)"
              "[]" None C1 1]
  by (simp add: updateTicketStatus_def model_defs sample_defs)

section \<open>A role that is none of the three levels\<close>




end
